theory Spec2Isabelle
  imports Main
begin

section \<open>The per-user session bridge of \<^verbatim>\<open>userSessionManager.ts\<close>\<close>

text \<open>
  The module keeps two global maps (user identifier to session object, call identifier
  to user identifier) and reacts to events on three kinds of WebSocket. Session objects
  and sockets are shared between the maps and the closures registered as listeners, so
  both live in explicit stores here: a session is referred to by a reference into
  \<open>heap\<close>, a socket by an index into \<open>sockets\<close>. Every function of the module
  takes the state and returns the new one. Calls to the call-history service are
  fire-and-forget in the source; the model records them, in order, in \<open>history\<close>.
  \<open>console.log\<close> output is not modelled.
\<close>

subsection \<open>Data model (\<^verbatim>\<open>types.ts\<close>)\<close>

type_synonym wsref = nat
type_synonym sref = nat

datatype call_type = Inbound | Outbound

datatype outbound_status = Initiating | Ringing | Connected | Disconnected

text \<open>
  The interface \<^verbatim>\<open>UserSession\<close>. Every field but \<open>userId\<close> is optional in the source;
  \<open>None\<close> is \<^verbatim>\<open>undefined\<close>. The field \<^verbatim>\<open>sessionId\<close> is never read or written by the
  module and is left out. Timestamps are JavaScript numbers holding millisecond counts;
  they are integers here.
\<close>

type_synonym config = "(string \<times> string) list"

record UserSession =
  userId :: string
  twilioConn :: "wsref option"
  frontendConn :: "wsref option"
  modelConn :: "wsref option"
  streamSid :: "string option"
  saved_config :: "config option"
  lastAssistantItem :: "string option"
  responseStartTimestamp :: "int option"
  latestMediaTimestamp :: "int option"
  openAIApiKey :: "string option"
  callType :: "call_type option"
  callSid :: "string option"
  outboundCallStatus :: "outbound_status option"

subsection \<open>Messages on the three links\<close>

text \<open>
  A parsed JSON message. The constructors cover the shapes the module reads
  (\<^verbatim>\<open>msg.event\<close> on the telephony link, \<^verbatim>\<open>event.type\<close> on the model link,
  \<^verbatim>\<open>msg.type\<close> on the observer link) and the objects it builds and sends; any other
  message is \<open>Other\<close>. Messages are taken to be well formed for their tag (a \<^verbatim>\<open>start\<close>
  message has its \<^verbatim>\<open>start\<close> object, and so on).
\<close>

datatype item =
    MessageItem "(string \<times> string) list option"
  | FunctionCallItem string string "string option"
  | OtherItem string

datatype created_item =
    SystemMessage string
  | FunctionCallOutput "string option" string

datatype message =
    Start string string "string option"
  | Media int string
  | Close
  | Stop
  | MediaOut string string
  | Mark string
  | SpeechStarted
  | TranscriptionCompleted "string option" "string option"
  | AudioDelta "string option" string
  | AudioTranscriptDelta "string option"
  | OutputItemDone item
  | SessionUpdate config
  | InputAudioBufferAppend string
  | ConversationItemTruncate string nat int
  | InputAudioBufferClear
  | ConversationItemCreate created_item
  | ResponseCreate
  | Other string

subsection \<open>Sockets and their listeners\<close>

datatype ready_state = CONNECTING | OPEN | CLOSING | CLOSED

text \<open>
  The closures the module registers with \<^verbatim>\<open>ws.on\<close>, one constructor per closure, holding
  what the closure captures: a user identifier, the socket, the API key, or the session
  object itself (a reference).
\<close>

datatype message_listener =
    OnTwilioMessage "string option" wsref string
  | OnFrontendMessage string
  | OnModelMessage string

datatype close_listener =
    OnAnonymousClose
  | OnTwilioClose sref
  | OnFrontendClose sref
  | OnModelClose string

datatype error_listener =
    OnErrorClose
  | OnModelError string

datatype open_listener =
    OnModelOpen sref

record websocket =
  readyState :: ready_state
  outbox :: "message list"
  onMessage :: "message_listener list"
  onError :: "error_listener list"
  onClose :: "close_listener list"
  onOpen :: "open_listener list"

subsection \<open>The call-history collaborator (\<^verbatim>\<open>callHistoryService.ts\<close>)\<close>

datatype event_type = User_speech | Assistant_speech | Function_call | System_event

datatype speaker = User | Assistant | System

datatype metadata =
    NoMetadata
  | TranscriptionConfidence "string option"
  | FunctionArgs string string
  | FunctionResult string string
  | Interruption int string

datatype record_status =
  RecordInitiating | RecordConnected | RecordCompleted | RecordFailed | RecordDisconnected

datatype history_call =
    StartCallTracking string string string call_type
  | UpdateCallStatus string record_status
  | AddConversationEvent string event_type speaker string metadata
  | EndCallTracking string

subsection \<open>The state of the module\<close>

text \<open>
  \<open>timers\<close> holds the user identifiers of the truncation actions scheduled with
  \<^verbatim>\<open>setTimeout\<close> and not yet run; \<open>pending\<close> holds the tool calls whose promise has not
  settled yet, each with the user identifier and the session object its callbacks
  captured.
\<close>

record server_state =
  userSessions :: "string \<rightharpoonup> sref"
  heap :: "sref \<Rightarrow> UserSession"
  nextSession :: sref
  callSidToUserId :: "string \<rightharpoonup> string"
  sockets :: "wsref \<Rightarrow> websocket"
  nextSocket :: wsref
  history :: "history_call list"
  timers :: "string list"
  pending :: "(item \<times> string \<times> sref) list"

definition new_session :: "string \<Rightarrow> UserSession" where
  "new_session uid = \<lparr>userId = uid, twilioConn = None, frontendConn = None,
     modelConn = None, streamSid = None, saved_config = None, lastAssistantItem = None,
     responseStartTimestamp = None, latestMediaTimestamp = None, openAIApiKey = None,
     callType = None, callSid = None, outboundCallStatus = None\<rparr>"

definition new_socket :: "ready_state \<Rightarrow> websocket" where
  "new_socket st = \<lparr>readyState = st, outbox = [], onMessage = [], onError = [],
     onClose = [], onOpen = []\<rparr>"

text \<open>
  JavaScript truthiness of an optional string and of an optional number: \<^verbatim>\<open>undefined\<close>,
  the empty string and \<open>0\<close> are falsy. \<open>if_truthy x f d\<close> is \<^verbatim>\<open>x ? f(x) : d\<close>.
\<close>

definition if_truthy :: "string option \<Rightarrow> (string \<Rightarrow> 'a) \<Rightarrow> 'a \<Rightarrow> 'a" where
  "if_truthy x f d = (case x of None \<Rightarrow> d | Some v \<Rightarrow> if v = [] then d else f v)"

definition truthy :: "string option \<Rightarrow> bool" where
  "truthy x = if_truthy x (\<lambda>_. True) False"

definition or_zero :: "int option \<Rightarrow> int" where
  "or_zero x = (case x of None \<Rightarrow> 0 | Some v \<Rightarrow> v)"

definition update_session :: "sref \<Rightarrow> (UserSession \<Rightarrow> UserSession) \<Rightarrow> server_state \<Rightarrow> server_state" where
  "update_session r f s = s\<lparr>heap := (heap s)(r := f (heap s r))\<rparr>"

definition update_socket :: "wsref \<Rightarrow> (websocket \<Rightarrow> websocket) \<Rightarrow> server_state \<Rightarrow> server_state" where
  "update_socket w f s = s\<lparr>sockets := (sockets s)(w := f (sockets s w))\<rparr>"

definition record_call :: "history_call \<Rightarrow> server_state \<Rightarrow> server_state" where
  "record_call c s = s\<lparr>history := history s @ [c]\<rparr>"

subsection \<open>Socket helpers\<close>

text \<open>
  \<^verbatim>\<open>ws.close()\<close> of the \<^verbatim>\<open>ws\<close> library starts the closing handshake: a socket that is not
  yet closed becomes \<^verbatim>\<open>CLOSING\<close>; its \<^verbatim>\<open>close\<close> event is emitted later.
\<close>

definition ws_close :: "wsref \<Rightarrow> server_state \<Rightarrow> server_state" where
  "ws_close w s =
     update_socket w (\<lambda>x. x\<lparr>readyState := (if readyState x = CLOSED then CLOSED else CLOSING)\<rparr>) s"

definition cleanupConnection :: "wsref option \<Rightarrow> server_state \<Rightarrow> server_state" where
  "cleanupConnection ws s =
     (case ws of
        None \<Rightarrow> s
      | Some w \<Rightarrow>
          if readyState (sockets s w) = OPEN \<or> readyState (sockets s w) = CONNECTING
          then ws_close w s else s)"

definition jsonSend :: "wsref option \<Rightarrow> message \<Rightarrow> server_state \<Rightarrow> server_state" where
  "jsonSend ws obj s =
     (case ws of
        None \<Rightarrow> s
      | Some w \<Rightarrow>
          if readyState (sockets s w) = OPEN
          then update_socket w (\<lambda>x. x\<lparr>outbox := outbox x @ [obj]\<rparr>) s else s)"

definition isOpen :: "wsref option \<Rightarrow> server_state \<Rightarrow> bool" where
  "isOpen ws s = (case ws of None \<Rightarrow> False | Some w \<Rightarrow> readyState (sockets s w) = OPEN)"

subsection \<open>The session registry and the pending call registrations\<close>

definition getUserSession :: "string \<Rightarrow> server_state \<Rightarrow> sref \<times> server_state" where
  "getUserSession uid s =
     (case userSessions s uid of
        Some r \<Rightarrow> (r, s)
      | None \<Rightarrow>
          (nextSession s,
           s\<lparr>userSessions := (userSessions s)(uid \<mapsto> nextSession s),
             heap := (heap s)(nextSession s := new_session uid),
             nextSession := Suc (nextSession s)\<rparr>))"

definition deleteUserSession :: "string \<Rightarrow> server_state \<Rightarrow> server_state" where
  "deleteUserSession uid s =
     (case userSessions s uid of
        None \<Rightarrow> s
      | Some r \<Rightarrow>
          (let s1 = cleanupConnection (twilioConn (heap s r)) s;
               s2 = cleanupConnection (frontendConn (heap s1 r)) s1;
               s3 = cleanupConnection (modelConn (heap s2 r)) s2
           in s3\<lparr>userSessions := (userSessions s3)(uid := None)\<rparr>))"

definition associateOutboundCall :: "string \<Rightarrow> string \<Rightarrow> server_state \<Rightarrow> server_state" where
  "associateOutboundCall uid csid s =
     (let (r, s1) = getUserSession uid s;
          s2 = update_session r (\<lambda>x. x\<lparr>callType := Some Outbound,
                  outboundCallStatus := Some Initiating, callSid := Some csid\<rparr>) s1
      in s2\<lparr>callSidToUserId := (callSidToUserId s2)(csid \<mapsto> uid)\<rparr>)"

definition associateOutboundCallWithPhoneNumber ::
  "string \<Rightarrow> string \<Rightarrow> string \<Rightarrow> server_state \<Rightarrow> server_state" where
  "associateOutboundCallWithPhoneNumber uid csid phone s =
     record_call (StartCallTracking csid uid phone Outbound) (associateOutboundCall uid csid s)"

definition getUserIdByCallSid :: "string \<Rightarrow> server_state \<Rightarrow> string option" where
  "getUserIdByCallSid csid s = callSidToUserId s csid"

subsection \<open>The barge-in action\<close>

definition interrupted_notice :: string where
  "interrupted_notice = ''You were just interrupted by the user while speaking. The user is now talking. Listen to what they're saying and respond appropriately.''"

text \<open>\<^verbatim>\<open>if (session.callSid) { ... }\<close> around a call to the history service.\<close>

definition when_callSid :: "sref \<Rightarrow> (string \<Rightarrow> history_call) \<Rightarrow> server_state \<Rightarrow> server_state" where
  "when_callSid r f s = if_truthy (callSid (heap s r)) (\<lambda>c. record_call (f c) s) s"

definition handleTruncation :: "string \<Rightarrow> server_state \<Rightarrow> server_state" where
  "handleTruncation uid s =
     (let (r, s1) = getUserSession uid s in
      case lastAssistantItem (heap s1 r) of
        None \<Rightarrow> s1
      | Some it \<Rightarrow>
          if it = [] then s1
          else
            (case responseStartTimestamp (heap s1 r) of
               None \<Rightarrow> s1
             | Some t0 \<Rightarrow>
                 if t0 = 0 then s1
                 else
                   (let elapsedMs = or_zero (latestMediaTimestamp (heap s1 r)) - t0;
                        s2 = jsonSend (modelConn (heap s1 r))
                               (ConversationItemTruncate it 0 elapsedMs) s1;
                        s3 = jsonSend (modelConn (heap s2 r)) InputAudioBufferClear s2;
                        s4 = jsonSend (modelConn (heap s3 r))
                               (ConversationItemCreate (SystemMessage interrupted_notice)) s3;
                        s5 = when_callSid r (\<lambda>c. AddConversationEvent c System_event System
                               ''Assistant was interrupted by user'' (Interruption elapsedMs it)) s4
                    in update_session r (\<lambda>x. x\<lparr>lastAssistantItem := None,
                                               responseStartTimestamp := None\<rparr>) s5)))"

subsection \<open>Connections\<close>

text \<open>
  What the module takes from outside: the tool registry \<^verbatim>\<open>functionHandlers\<close> (each entry
  a schema name and a handler; a handler either returns a string or throws an error with
  a message, \<open>Inl\<close>), \<^verbatim>\<open>JSON.parse\<close> on tool arguments (\<open>None\<close> when it throws),
  \<^verbatim>\<open>JSON.stringify\<close> on a string, the environment variable holding the token secret and
  \<^verbatim>\<open>jwt.verify\<close> (\<open>None\<close> when it throws, else the \<^verbatim>\<open>sub\<close> claim of the decoded
  token, which may be missing). A handler is taken to be a function of its arguments
  that settles; what it does besides returning is outside the module.
\<close>

record 'a env =
  functionHandlers :: "(string \<times> ('a \<Rightarrow> string + string)) list"
  JSON_parse :: "string \<Rightarrow> 'a option"
  JSON_stringify :: "string \<Rightarrow> string"
  SUPABASE_JWT_SECRET :: "string option"
  jwt_verify :: "string \<Rightarrow> string \<Rightarrow> string option option"

definition extractUserIdFromToken :: "'a env \<Rightarrow> string \<Rightarrow> string option" where
  "extractUserIdFromToken e token =
     if_truthy (SUPABASE_JWT_SECRET e)
       (\<lambda>secret. case jwt_verify e token secret of None \<Rightarrow> None | Some decoded_sub \<Rightarrow> decoded_sub)
       None"

definition handleCallConnection :: "wsref \<Rightarrow> string \<Rightarrow> server_state \<Rightarrow> server_state" where
  "handleCallConnection ws apiKey s =
     update_socket ws (\<lambda>x. x\<lparr>onMessage := onMessage x @ [OnTwilioMessage None ws apiKey],
                               onError := onError x @ [OnErrorClose],
                               onClose := onClose x @ [OnAnonymousClose]\<rparr>) s"

definition handleFrontendConnection :: "'a env \<Rightarrow> wsref \<Rightarrow> string \<Rightarrow> server_state \<Rightarrow> server_state" where
  "handleFrontendConnection e ws token s =
     if_truthy (extractUserIdFromToken e token)
       (\<lambda>uid.
          let (r, s1) = getUserSession uid s;
              s2 = cleanupConnection (frontendConn (heap s1 r)) s1;
              s3 = update_session r (\<lambda>x. x\<lparr>frontendConn := Some ws\<rparr>) s2
          in update_socket ws (\<lambda>x. x\<lparr>onMessage := onMessage x @ [OnFrontendMessage uid],
                                       onClose := onClose x @ [OnFrontendClose r]\<rparr>) s3)
       (ws_close ws s)"

text \<open>The \<^verbatim>\<open>close\<close> listener registered by \<open>handleFrontendConnection\<close>.\<close>

definition frontendClose :: "sref \<Rightarrow> server_state \<Rightarrow> server_state" where
  "frontendClose r s =
     update_session r (\<lambda>x. x\<lparr>frontendConn := None\<rparr>)
       (cleanupConnection (frontendConn (heap s r)) s)"

subsection \<open>The model link\<close>

text \<open>
  \<^verbatim>\<open>new WebSocket(url, options)\<close> yields a fresh socket in state \<^verbatim>\<open>CONNECTING\<close>; the four
  listeners are attached to it at once. The URL and the headers are not modelled.
\<close>

definition tryConnectModel :: "string \<Rightarrow> server_state \<Rightarrow> server_state" where
  "tryConnectModel uid s =
     (let (r, s1) = getUserSession uid s in
      if twilioConn (heap s1 r) = None \<or> \<not> truthy (streamSid (heap s1 r))
         \<or> \<not> truthy (openAIApiKey (heap s1 r))
      then s1
      else if isOpen (modelConn (heap s1 r)) s1 then s1
      else
        (let w = nextSocket s1;
             s2 = s1\<lparr>sockets := (sockets s1)(w := \<lparr>readyState = CONNECTING, outbox = [],
                       onMessage = [OnModelMessage uid], onError = [OnModelError uid],
                       onClose = [OnModelClose uid], onOpen = [OnModelOpen r]\<rparr>),
                     nextSocket := Suc w\<rparr>
         in update_session r (\<lambda>x. x\<lparr>modelConn := Some w\<rparr>) s2))"

text \<open>
  The \<^verbatim>\<open>open\<close> listener: the default session configuration, each key overridden by the
  saved configuration (object spread). Configuration values are opaque strings.
\<close>

definition default_config :: config where
  "default_config = [(''modalities'', ''text,audio''), (''turn_detection'', ''server_vad''),
     (''voice'', ''ash''), (''input_audio_transcription'', ''whisper-1''),
     (''input_audio_format'', ''g711_ulaw''), (''output_audio_format'', ''g711_ulaw'')]"

fun assign :: "string \<Rightarrow> string \<Rightarrow> config \<Rightarrow> config" where
  "assign k v [] = [(k, v)]"
| "assign k v ((k', v') # kvs) = (if k' = k then (k, v) # kvs else (k', v') # assign k v kvs)"

definition spread :: "config \<Rightarrow> config \<Rightarrow> config" where
  "spread base over = foldl (\<lambda>acc kv. assign (fst kv) (snd kv) acc) base over"

definition modelOpen :: "sref \<Rightarrow> server_state \<Rightarrow> server_state" where
  "modelOpen r s =
     (let cfg = (case saved_config (heap s r) of None \<Rightarrow> [] | Some c \<Rightarrow> c)
      in jsonSend (modelConn (heap s r)) (SessionUpdate (spread default_config cfg)) s)"

definition closeModel :: "string \<Rightarrow> server_state \<Rightarrow> server_state" where
  "closeModel uid s =
     (let (r, s1) = getUserSession uid s;
          s2 = cleanupConnection (modelConn (heap s1 r)) s1
      in update_session r (\<lambda>x. x\<lparr>modelConn := None\<rparr>) s2)"

subsection \<open>The telephony link\<close>

text \<open>
  \<open>handleTwilioMessage\<close> is one function in the source. Its three parts are named
  here: the identification of an anonymous connection at a \<^verbatim>\<open>start\<close> message (binding the
  socket into the session and replacing its listeners), the \<^verbatim>\<open>close\<close> listener that the
  identification registers, and the \<^verbatim>\<open>switch\<close> on \<^verbatim>\<open>msg.event\<close>.
\<close>

definition bindCall :: "string \<Rightarrow> string \<Rightarrow> wsref \<Rightarrow> string \<Rightarrow> server_state \<Rightarrow> server_state" where
  "bindCall uid csid ws apiKey s =
     (let (r, s1) = getUserSession uid s;
          s2 = cleanupConnection (twilioConn (heap s1 r)) s1;
          s3 = update_session r (\<lambda>x. x\<lparr>twilioConn := Some ws, openAIApiKey := Some apiKey\<rparr>) s2;
          s4 = (if callType (heap s3 r) = Some Outbound
                then record_call (UpdateCallStatus csid RecordConnected)
                       (update_session r (\<lambda>x. x\<lparr>outboundCallStatus := Some Connected\<rparr>) s3)
                else s3)
      in update_socket ws (\<lambda>x. x\<lparr>onMessage := [OnTwilioMessage (Some uid) ws apiKey],
                                   onError := onError x @ [OnErrorClose],
                                   onClose := onClose x @ [OnTwilioClose r]\<rparr>) s4)"

definition twilioClose :: "sref \<Rightarrow> server_state \<Rightarrow> server_state" where
  "twilioClose r s =
     (let s1 = when_callSid r EndCallTracking s;
          s2 = cleanupConnection (modelConn (heap s1 r)) s1;
          s3 = cleanupConnection (twilioConn (heap s2 r)) s2;
          s4 = update_session r (\<lambda>x. x\<lparr>twilioConn := None, modelConn := None,
                  streamSid := None, lastAssistantItem := None,
                  responseStartTimestamp := None, latestMediaTimestamp := None\<rparr>) s3
      in if callType (heap s4 r) = Some Outbound
         then update_session r (\<lambda>x. x\<lparr>outboundCallStatus := Some Disconnected\<rparr>) s4
         else s4)"

definition twilioEvent :: "message \<Rightarrow> string \<Rightarrow> server_state \<Rightarrow> server_state" where
  "twilioEvent msg uid s =
     (let (r, s1) = getUserSession uid s in
      case msg of
        Start csid ssid caller \<Rightarrow>
          (let s2 = update_session r (\<lambda>x. x\<lparr>streamSid := Some ssid,
                       latestMediaTimestamp := Some 0, lastAssistantItem := None,
                       responseStartTimestamp := None\<rparr>) s1;
               s3 = (if callType (heap s2 r) = None
                     then
                       (let s2a = update_session r (\<lambda>x. x\<lparr>callType := Some Inbound\<rparr>) s2
                        in if csid \<noteq> []
                           then update_session r (\<lambda>x. x\<lparr>callSid := Some csid\<rparr>)
                                  (record_call (StartCallTracking csid uid
                                     (if_truthy caller (\<lambda>n. n) ''unknown'') Inbound) s2a)
                           else s2a)
                     else s2)
           in tryConnectModel uid s3)
      | Media ts payload \<Rightarrow>
          (let s2 = update_session r (\<lambda>x. x\<lparr>latestMediaTimestamp := Some ts\<rparr>) s1
           in if isOpen (modelConn (heap s2 r)) s2
              then jsonSend (modelConn (heap s2 r)) (InputAudioBufferAppend payload) s2
              else s2)
      | Close \<Rightarrow>
          (let s2 = when_callSid r EndCallTracking s1;
               s3 = cleanupConnection (twilioConn (heap s2 r)) s2;
               s4 = cleanupConnection (modelConn (heap s3 r)) s3
           in update_session r (\<lambda>x. x\<lparr>twilioConn := None, modelConn := None,
                                      outboundCallStatus := Some Disconnected\<rparr>) s4)
      | Stop \<Rightarrow> when_callSid r EndCallTracking s1
      | _ \<Rightarrow> s1)"

text \<open>
  \<open>data\<close> is the result of \<^verbatim>\<open>parseMessage\<close>: \<open>None\<close> when the frame does not parse.
  \<open>uid\<close> is the \<^verbatim>\<open>userId\<close> argument, \<open>None\<close> for \<^verbatim>\<open>null\<close>.
\<close>

definition handleTwilioMessage ::
  "message option \<Rightarrow> string option \<Rightarrow> wsref \<Rightarrow> string \<Rightarrow> server_state \<Rightarrow> server_state" where
  "handleTwilioMessage data uid ws apiKey s =
     (case data of
        None \<Rightarrow> s
      | Some msg \<Rightarrow>
          if_truthy uid
            (\<lambda>u. twilioEvent msg u s)
            (case msg of
               Start csid ssid caller \<Rightarrow>
                 if_truthy (getUserIdByCallSid csid s)
                   (\<lambda>found. twilioEvent msg found (bindCall found csid ws apiKey s))
                   (ws_close ws s)
             | _ \<Rightarrow> s))"

subsection \<open>The observer link\<close>

definition handleFrontendMessage :: "message option \<Rightarrow> string \<Rightarrow> server_state \<Rightarrow> server_state" where
  "handleFrontendMessage data uid s =
     (let (r, s1) = getUserSession uid s in
      case data of
        None \<Rightarrow> s1
      | Some msg \<Rightarrow>
          (let s2 = (if isOpen (modelConn (heap s1 r)) s1
                     then jsonSend (modelConn (heap s1 r)) msg s1 else s1)
           in case msg of
                SessionUpdate cfg \<Rightarrow> update_session r (\<lambda>x. x\<lparr>saved_config := Some cfg\<rparr>) s2
              | _ \<Rightarrow> s2))"

subsection \<open>Tool calls\<close>

text \<open>\<^verbatim>\<open>JSON.stringify({ error: msg })\<close>.\<close>

definition error_object :: "'a env \<Rightarrow> string \<Rightarrow> string" where
  "error_object e msg = ''{'' @ JSON_stringify e ''error'' @ '':'' @ JSON_stringify e msg @ ''}''"

text \<open>
  The promise \<open>handleFunctionCall\<close> returns, once settled: \<open>Inl\<close> is a rejection with
  the error's message, \<open>Inr\<close> the string it resolves to.
\<close>

definition handleFunctionCall :: "'a env \<Rightarrow> string \<Rightarrow> string \<Rightarrow> string + string" where
  "handleFunctionCall e name arguments =
     (case find (\<lambda>f. fst f = name) (functionHandlers e) of
        None \<Rightarrow> Inl (''No handler found for function: '' @ name)
      | Some fnDef \<Rightarrow>
          (case JSON_parse e arguments of
             None \<Rightarrow> Inr (error_object e ''Invalid JSON arguments for function call.'')
           | Some args \<Rightarrow>
               (case snd fnDef args of
                  Inr result \<Rightarrow> Inr result
                | Inl err_message \<Rightarrow>
                    Inr (error_object e
                           (''Error running function '' @ name @ '': '' @ err_message)))))"

text \<open>The \<^verbatim>\<open>.then\<close> and \<^verbatim>\<open>.catch\<close> callbacks of the promise, run when it settles.\<close>

definition functionCallThen ::
  "'a env \<Rightarrow> string \<Rightarrow> string option \<Rightarrow> string \<Rightarrow> string \<Rightarrow> server_state \<Rightarrow> server_state" where
  "functionCallThen e name call_id uid output s =
     (let (r, s1) = getUserSession uid s;
          s2 = when_callSid r (\<lambda>c. AddConversationEvent c Function_call System
                 (''Result: '' @ take 200 output @ (if length output > 200 then ''...'' else []))
                 (FunctionResult name output)) s1
      in case modelConn (heap s2 r) of
           None \<Rightarrow> s2
         | Some w \<Rightarrow>
             jsonSend (Some w) ResponseCreate
               (jsonSend (Some w)
                  (ConversationItemCreate (FunctionCallOutput call_id (JSON_stringify e output))) s2))"

definition functionCallCatch :: "string \<Rightarrow> sref \<Rightarrow> string \<Rightarrow> server_state \<Rightarrow> server_state" where
  "functionCallCatch name r err_message s =
     when_callSid r (\<lambda>c. AddConversationEvent c System_event System
        (''Function error: '' @ err_message) (FunctionResult name err_message)) s"

definition settleFunctionCall :: "'a env \<Rightarrow> item \<times> string \<times> sref \<Rightarrow> server_state \<Rightarrow> server_state" where
  "settleFunctionCall e p s =
     (case p of
        (FunctionCallItem name arguments call_id, uid, r) \<Rightarrow>
          (case handleFunctionCall e name arguments of
             Inr output \<Rightarrow> functionCallThen e name call_id uid output s
           | Inl err_message \<Rightarrow> functionCallCatch name r err_message s)
      | _ \<Rightarrow> s)"

subsection \<open>Events from the model\<close>

fun join :: "string list \<Rightarrow> string" where
  "join [] = []"
| "join [x] = x"
| "join (x # y # ys) = x @ '' '' @ join (y # ys)"

definition handleModelMessage :: "message option \<Rightarrow> string \<Rightarrow> server_state \<Rightarrow> server_state" where
  "handleModelMessage data uid s =
     (let (r, s1) = getUserSession uid s in
      case data of
        None \<Rightarrow> s1
      | Some ev \<Rightarrow>
          (let s2 = jsonSend (frontendConn (heap s1 r)) ev s1 in
           case ev of
             SpeechStarted \<Rightarrow>
               when_callSid r (\<lambda>c. AddConversationEvent c User_speech User ''Speech started''
                  NoMetadata) (s2\<lparr>timers := timers s2 @ [uid]\<rparr>)
           | TranscriptionCompleted transcript confidence \<Rightarrow>
               if_truthy transcript
                 (\<lambda>tr. when_callSid r (\<lambda>c. AddConversationEvent c User_speech User tr
                          (TranscriptionConfidence confidence)) s2)
                 s2
           | AudioDelta item_id delta \<Rightarrow>
               if twilioConn (heap s2 r) \<noteq> None
               then
                 if_truthy (streamSid (heap s2 r))
                   (\<lambda>ssid.
                      let s3 = (if responseStartTimestamp (heap s2 r) = None
                                then update_session r (\<lambda>x. x\<lparr>responseStartTimestamp :=
                                       Some (or_zero (latestMediaTimestamp x))\<rparr>) s2
                                else s2);
                          s4 = if_truthy item_id
                                 (\<lambda>i. update_session r (\<lambda>x. x\<lparr>lastAssistantItem := Some i\<rparr>) s3)
                                 s3;
                          s5 = jsonSend (twilioConn (heap s4 r)) (MediaOut ssid delta) s4
                      in jsonSend (twilioConn (heap s5 r)) (Mark ssid) s5)
                   s2
               else s2
           | AudioTranscriptDelta delta \<Rightarrow>
               if_truthy delta
                 (\<lambda>d. if length d > 5
                       then when_callSid r (\<lambda>c. AddConversationEvent c Assistant_speech
                              Assistant d NoMetadata) s2
                       else s2)
                 s2
           | OutputItemDone it \<Rightarrow>
               (case it of
                  MessageItem (Some content) \<Rightarrow>
                    (let textContent = join (map snd (filter (\<lambda>c. fst c = ''text'') content))
                     in if textContent \<noteq> []
                        then when_callSid r (\<lambda>c. AddConversationEvent c Assistant_speech
                               Assistant textContent NoMetadata) s2
                        else s2)
                | FunctionCallItem name arguments call_id \<Rightarrow>
                    (let s3 = when_callSid r (\<lambda>c. AddConversationEvent c Function_call System
                                (''Function: '' @ name) (FunctionArgs name arguments)) s2
                     in s3\<lparr>pending := pending s3 @ [(it, uid, r)]\<rparr>)
                | _ \<Rightarrow> s2)
           | _ \<Rightarrow> s2))"

subsection \<open>Events\<close>

text \<open>
  What can happen to the module: a call of one of its exported functions, an event
  emitted by a socket (the listeners registered for it run in registration order, on the
  list as it was when the event was emitted), a truncation timer firing, the promise of
  a tool call settling. A connection event stands for the server accepting a socket,
  which is open by then, and handing it to the module.
\<close>

definition run_message_listener ::
  "message option \<Rightarrow> message_listener \<Rightarrow> server_state \<Rightarrow> server_state" where
  "run_message_listener data l s =
     (case l of
        OnTwilioMessage uid ws apiKey \<Rightarrow> handleTwilioMessage data uid ws apiKey s
      | OnFrontendMessage uid \<Rightarrow> handleFrontendMessage data uid s
      | OnModelMessage uid \<Rightarrow> handleModelMessage data uid s)"

definition run_close_listener :: "close_listener \<Rightarrow> server_state \<Rightarrow> server_state" where
  "run_close_listener l s =
     (case l of
        OnAnonymousClose \<Rightarrow> s
      | OnTwilioClose r \<Rightarrow> twilioClose r s
      | OnFrontendClose r \<Rightarrow> frontendClose r s
      | OnModelClose uid \<Rightarrow> closeModel uid s)"

definition run_error_listener :: "wsref \<Rightarrow> error_listener \<Rightarrow> server_state \<Rightarrow> server_state" where
  "run_error_listener w l s =
     (case l of
        OnErrorClose \<Rightarrow> ws_close w s
      | OnModelError uid \<Rightarrow> closeModel uid s)"

definition run_open_listener :: "open_listener \<Rightarrow> server_state \<Rightarrow> server_state" where
  "run_open_listener l s = (case l of OnModelOpen r \<Rightarrow> modelOpen r s)"

definition accept :: "server_state \<Rightarrow> wsref \<times> server_state" where
  "accept s =
     (nextSocket s,
      s\<lparr>sockets := (sockets s)(nextSocket s := new_socket OPEN),
        nextSocket := Suc (nextSocket s)\<rparr>)"

datatype event =
    CallConnection string
  | FrontendConnection string
  | AssociateOutboundCall string string
  | AssociateOutboundCallWithPhoneNumber string string string
  | DeleteUserSession string
  | SocketMessage wsref "message option"
  | SocketClose wsref
  | SocketError wsref
  | SocketOpen wsref
  | TimerFires
  | PromiseSettles nat

definition step :: "'a env \<Rightarrow> event \<Rightarrow> server_state \<Rightarrow> server_state" where
  "step e ev s =
     (case ev of
        CallConnection apiKey \<Rightarrow> (let (w, s1) = accept s in handleCallConnection w apiKey s1)
      | FrontendConnection token \<Rightarrow>
          (let (w, s1) = accept s in handleFrontendConnection e w token s1)
      | AssociateOutboundCall uid csid \<Rightarrow> associateOutboundCall uid csid s
      | AssociateOutboundCallWithPhoneNumber uid csid phone \<Rightarrow>
          associateOutboundCallWithPhoneNumber uid csid phone s
      | DeleteUserSession uid \<Rightarrow> deleteUserSession uid s
      | SocketMessage w data \<Rightarrow> fold (run_message_listener data) (onMessage (sockets s w)) s
      | SocketClose w \<Rightarrow>
          fold run_close_listener (onClose (sockets s w))
            (update_socket w (\<lambda>x. x\<lparr>readyState := CLOSED\<rparr>) s)
      | SocketError w \<Rightarrow> fold (run_error_listener w) (onError (sockets s w)) s
      | SocketOpen w \<Rightarrow>
          (if readyState (sockets s w) = CONNECTING
           then fold run_open_listener (onOpen (sockets s w))
                  (update_socket w (\<lambda>x. x\<lparr>readyState := OPEN\<rparr>) s)
           else s)
      | TimerFires \<Rightarrow>
          (case timers s of [] \<Rightarrow> s | uid # rest \<Rightarrow> handleTruncation uid (s\<lparr>timers := rest\<rparr>))
      | PromiseSettles n \<Rightarrow>
          (if n < length (pending s)
           then settleFunctionCall e (pending s ! n)
                  (s\<lparr>pending := take n (pending s) @ drop (Suc n) (pending s)\<rparr>)
           else s))"

fun run :: "'a env \<Rightarrow> event list \<Rightarrow> server_state \<Rightarrow> server_state" where
  "run e [] s = s"
| "run e (ev # evs) s = run e evs (step e ev s)"

text \<open>The state of a freshly started process.\<close>

definition initial :: server_state where
  "initial = \<lparr>userSessions = Map.empty, heap = (\<lambda>_. new_session []), nextSession = 0,
     callSidToUserId = Map.empty, sockets = (\<lambda>_. new_socket CLOSED), nextSocket = 0,
     history = [], timers = [], pending = []\<rparr>"

subsection \<open>An example environment and some reachable states\<close>

text \<open>
  One registered tool, which throws on the argument \<open>boom\<close>; a parser that rejects the
  text \<open>{\<close>; a stringifier that only adds the quotes; a verifier that accepts the one
  token \<open>good\<close>, belonging to user \<open>u1\<close>.
\<close>

definition example_env :: "string env" where
  "example_env = \<lparr>functionHandlers =
       [(''get_weather'', \<lambda>args. if args = ''boom'' then Inl ''service down'' else Inr ''sunny'')],
     JSON_parse = (\<lambda>text. if text = ''{'' then None else Some text),
     JSON_stringify = (\<lambda>x. [CHR 0x22] @ x @ [CHR 0x22]),
     SUPABASE_JWT_SECRET = Some ''secret'',
     jwt_verify = (\<lambda>token secret. if token = ''good'' then Some (Some ''u1'') else None)\<rparr>"

text \<open>
  An outbound call \<open>CA123\<close> is registered for \<open>u1\<close>, the telephony socket (socket 0)
  connects and sends its \<^verbatim>\<open>start\<close> message for stream \<open>S1\<close>.
\<close>

definition call_bound :: server_state where
  "call_bound = run example_env
     [AssociateOutboundCall ''u1'' ''CA123'', CallConnection ''key'',
      SocketMessage 0 (Some (Start ''CA123'' ''S1'' None))] initial"

text \<open>Then the model socket (socket 1) opens.\<close>

definition call_started :: server_state where
  "call_started = step example_env (SocketOpen 1) call_bound"

text \<open>
  The assistant starts speaking at media time 100, and at media time 350 the model
  reports that the caller speaks: a truncation is scheduled.
\<close>

definition assistant_speaking :: server_state where
  "assistant_speaking = run example_env
     [SocketMessage 0 (Some (Media 100 ''a'')),
      SocketMessage 1 (Some (AudioDelta (Some ''item_1'') ''b'')),
      SocketMessage 0 (Some (Media 350 ''c'')),
      SocketMessage 1 (Some SpeechStarted)] call_started"

text \<open>The model socket closes before the timer fires.\<close>

definition model_lost :: server_state where
  "model_lost = step example_env (SocketClose 1) assistant_speaking"

text \<open>The model asks for a tool that is not registered, and the promise settles.\<close>

definition unknown_tool_called :: server_state where
  "unknown_tool_called = run example_env
     [SocketMessage 1 (Some (OutputItemDone (FunctionCallItem ''nope'' ''x'' (Some ''call_1'')))),
      PromiseSettles 0] call_started"

text \<open>The telephony socket sends a \<^verbatim>\<open>close\<close> message right after its \<^verbatim>\<open>start\<close>.\<close>

definition close_signalled :: server_state where
  "close_signalled = step example_env (SocketMessage 0 (Some Close)) call_bound"

text \<open>An observer connects with a good token (socket 0).\<close>

definition observer_connected :: server_state where
  "observer_connected = step example_env (FrontendConnection ''good'') initial"

text \<open>A telephony socket has connected and not identified itself yet (socket 0).\<close>

definition anonymous_connected :: server_state where
  "anonymous_connected = step example_env (CallConnection ''key'') initial"

section \<open>Properties\<close>

subsection \<open>Unfolding and frame lemmas\<close>

lemmas prims = update_session_def update_socket_def record_call_def ws_close_def
  cleanupConnection_def jsonSend_def isOpen_def when_callSid_def if_truthy_def truthy_def
  or_zero_def

lemmas run_defs = step_def accept_def handleCallConnection_def handleTwilioMessage_def
  handleModelMessage_def handleFrontendMessage_def handleFrontendConnection_def
  extractUserIdFromToken_def handleTruncation_def
  run_message_listener_def run_close_listener_def run_open_listener_def run_error_listener_def
  associateOutboundCall_def getUserSession_def new_session_def new_socket_def initial_def
  getUserIdByCallSid_def bindCall_def twilioEvent_def tryConnectModel_def closeModel_def
  twilioClose_def frontendClose_def modelOpen_def spread_def default_config_def
  settleFunctionCall_def handleFunctionCall_def functionCallThen_def functionCallCatch_def
  error_object_def example_env_def Let_def

lemma getUserSession_existing:
  "userSessions s uid = Some r \<Longrightarrow> getUserSession uid s = (r, s)"
  by (simp add: getUserSession_def)

text \<open>The registry is touched by \<open>getUserSession\<close> and \<open>deleteUserSession\<close> only.\<close>

lemma reg_update_session [simp]: "userSessions (update_session r f s) = userSessions s"
  by (simp add: update_session_def)

lemma reg_update_socket [simp]: "userSessions (update_socket w f s) = userSessions s"
  by (simp add: update_socket_def)

lemma reg_record_call [simp]: "userSessions (record_call c s) = userSessions s"
  by (simp add: record_call_def)

lemma reg_ws_close [simp]: "userSessions (ws_close w s) = userSessions s"
  by (simp add: ws_close_def)

lemma reg_cleanupConnection [simp]: "userSessions (cleanupConnection w s) = userSessions s"
  by (simp add: cleanupConnection_def split: option.splits)

lemma reg_jsonSend [simp]: "userSessions (jsonSend w m s) = userSessions s"
  by (simp add: jsonSend_def split: option.splits)

lemma reg_when_callSid [simp]: "userSessions (when_callSid r f s) = userSessions s"
  by (simp add: when_callSid_def if_truthy_def split: option.splits)

lemma reg_twilioClose [simp]: "userSessions (twilioClose r s) = userSessions s"
  by (simp add: twilioClose_def Let_def)

lemma reg_frontendClose [simp]: "userSessions (frontendClose r s) = userSessions s"
  by (simp add: frontendClose_def)

lemma reg_modelOpen [simp]: "userSessions (modelOpen r s) = userSessions s"
  by (simp add: modelOpen_def Let_def)

lemma reg_getUserSession:
  "userSessions s uid = Some r \<Longrightarrow> userSessions (snd (getUserSession u s)) uid = Some r"
  by (auto simp: getUserSession_def split: option.splits)

lemma reg_tryConnectModel:
  "userSessions s uid = Some r \<Longrightarrow> userSessions (tryConnectModel u s) uid = Some r"
  by (simp add: tryConnectModel_def split_def Let_def reg_getUserSession)

lemma reg_closeModel:
  "userSessions s uid = Some r \<Longrightarrow> userSessions (closeModel u s) uid = Some r"
  by (simp add: closeModel_def split_def Let_def reg_getUserSession)

lemma reg_handleTruncation:
  "userSessions s uid = Some r \<Longrightarrow> userSessions (handleTruncation u s) uid = Some r"
  by (simp add: handleTruncation_def split_def Let_def reg_getUserSession split: option.splits)

lemma reg_associateOutboundCall:
  "userSessions s uid = Some r \<Longrightarrow> userSessions (associateOutboundCall u c s) uid = Some r"
  by (simp add: associateOutboundCall_def split_def Let_def reg_getUserSession)

lemma reg_bindCall:
  "userSessions s uid = Some r \<Longrightarrow> userSessions (bindCall u c w k s) uid = Some r"
  by (simp add: bindCall_def split_def Let_def reg_getUserSession)

lemma reg_twilioEvent:
  "userSessions s uid = Some r \<Longrightarrow> userSessions (twilioEvent m u s) uid = Some r"
  by (simp add: twilioEvent_def split_def Let_def reg_getUserSession reg_tryConnectModel
      split: message.splits)

lemma reg_handleTwilioMessage:
  "userSessions s uid = Some r \<Longrightarrow> userSessions (handleTwilioMessage d u w k s) uid = Some r"
  by (simp add: handleTwilioMessage_def if_truthy_def reg_twilioEvent reg_bindCall
      split: option.splits message.splits)

lemma reg_handleFrontendMessage:
  "userSessions s uid = Some r \<Longrightarrow> userSessions (handleFrontendMessage d u s) uid = Some r"
  by (simp add: handleFrontendMessage_def split_def Let_def reg_getUserSession
      split: option.splits message.splits)

lemma reg_handleModelMessage:
  "userSessions s uid = Some r \<Longrightarrow> userSessions (handleModelMessage d u s) uid = Some r"
  by (simp add: handleModelMessage_def split_def Let_def reg_getUserSession if_truthy_def
      split: option.splits message.splits item.splits)

lemma reg_handleFrontendConnection:
  "userSessions s uid = Some r \<Longrightarrow>
   userSessions (handleFrontendConnection e w t s) uid = Some r"
  by (simp add: handleFrontendConnection_def split_def Let_def reg_getUserSession if_truthy_def
      split: option.splits)

lemma reg_settleFunctionCall:
  "userSessions s uid = Some r \<Longrightarrow> userSessions (settleFunctionCall e p s) uid = Some r"
  by (simp add: settleFunctionCall_def functionCallThen_def functionCallCatch_def split_def
      Let_def reg_getUserSession split: option.splits item.splits sum.splits)

lemma reg_deleteUserSession:
  "userSessions s uid = Some r \<Longrightarrow> u \<noteq> uid \<Longrightarrow>
   userSessions (deleteUserSession u s) uid = Some r"
  by (simp add: deleteUserSession_def Let_def split: option.splits)

lemma reg_fold:
  assumes "\<And>l s. userSessions s uid = Some r \<Longrightarrow> userSessions (f l s) uid = Some r"
  shows "userSessions s uid = Some r \<Longrightarrow> userSessions (fold f ls s) uid = Some r"
  by (induction ls arbitrary: s) (simp_all add: assms)

text \<open>Sending, closing and recording leave the session objects alone.\<close>

lemma heap_update_socket [simp]: "heap (update_socket w f s) = heap s"
  by (simp add: update_socket_def)

lemma heap_record_call [simp]: "heap (record_call c s) = heap s"
  by (simp add: record_call_def)

lemma heap_ws_close [simp]: "heap (ws_close w s) = heap s"
  by (simp add: ws_close_def)

lemma heap_cleanupConnection [simp]: "heap (cleanupConnection w s) = heap s"
  by (simp add: cleanupConnection_def split: option.splits)

lemma heap_jsonSend [simp]: "heap (jsonSend w m s) = heap s"
  by (simp add: jsonSend_def split: option.splits)

lemma heap_when_callSid [simp]: "heap (when_callSid r f s) = heap s"
  by (simp add: when_callSid_def if_truthy_def split: option.splits)

text \<open>The pending call registrations are touched by \<open>associateOutboundCall\<close> only.\<close>

lemma calls_getUserSession [simp]:
  "callSidToUserId (snd (getUserSession u s)) = callSidToUserId s"
  by (simp add: getUserSession_def split: option.splits)

lemma calls_tryConnectModel [simp]: "callSidToUserId (tryConnectModel u s) = callSidToUserId s"
  by (simp add: tryConnectModel_def split_def Let_def prims split: option.splits)

lemma calls_bindCall [simp]: "callSidToUserId (bindCall u c w k s) = callSidToUserId s"
  by (simp add: bindCall_def split_def Let_def prims split: option.splits)

lemma calls_twilioEvent [simp]: "callSidToUserId (twilioEvent m u s) = callSidToUserId s"
  by (simp add: twilioEvent_def split_def Let_def prims split: option.splits message.splits)

lemma calls_handleTwilioMessage:
  "callSidToUserId (handleTwilioMessage d u w k s) = callSidToUserId s"
  by (simp add: handleTwilioMessage_def if_truthy_def ws_close_def update_socket_def
      split: option.splits message.splits)

text \<open>The examples, evaluated.\<close>

lemma call_bound_eq:
  "call_bound = \<lparr>userSessions = [''u1'' \<mapsto> 0],
     heap = (\<lambda>_. new_session [])
       (0 := \<lparr>userId = ''u1'', twilioConn = Some 0, frontendConn = None,
          modelConn = Some 1, streamSid = Some ''S1'', saved_config = None,
          lastAssistantItem = None, responseStartTimestamp = None,
          latestMediaTimestamp = Some 0, openAIApiKey = Some ''key'',
          callType = Some Outbound, callSid = Some ''CA123'',
          outboundCallStatus = Some Connected\<rparr>),
     nextSession = 1,
     callSidToUserId = [''CA123'' \<mapsto> ''u1''],
     sockets = (\<lambda>_. new_socket CLOSED)
       (0 := \<lparr>readyState = OPEN, outbox = [],
              onMessage = [OnTwilioMessage (Some ''u1'') 0 ''key''],
              onError = [OnErrorClose, OnErrorClose],
              onClose = [OnAnonymousClose, OnTwilioClose 0], onOpen = []\<rparr>,
        1 := \<lparr>readyState = CONNECTING, outbox = [],
              onMessage = [OnModelMessage ''u1''], onError = [OnModelError ''u1''],
              onClose = [OnModelClose ''u1''], onOpen = [OnModelOpen 0]\<rparr>),
     nextSocket = 2,
     history = [UpdateCallStatus ''CA123'' RecordConnected], timers = [], pending = []\<rparr>"
  by (simp add: call_bound_def run_defs prims)

lemma call_started_eq:
  "call_started = \<lparr>userSessions = [''u1'' \<mapsto> 0],
     heap = (\<lambda>_. new_session [])
       (0 := \<lparr>userId = ''u1'', twilioConn = Some 0, frontendConn = None,
          modelConn = Some 1, streamSid = Some ''S1'', saved_config = None,
          lastAssistantItem = None, responseStartTimestamp = None,
          latestMediaTimestamp = Some 0, openAIApiKey = Some ''key'',
          callType = Some Outbound, callSid = Some ''CA123'',
          outboundCallStatus = Some Connected\<rparr>),
     nextSession = 1,
     callSidToUserId = [''CA123'' \<mapsto> ''u1''],
     sockets = (\<lambda>_. new_socket CLOSED)
       (0 := \<lparr>readyState = OPEN, outbox = [],
              onMessage = [OnTwilioMessage (Some ''u1'') 0 ''key''],
              onError = [OnErrorClose, OnErrorClose],
              onClose = [OnAnonymousClose, OnTwilioClose 0], onOpen = []\<rparr>,
        1 := \<lparr>readyState = OPEN, outbox = [SessionUpdate default_config],
              onMessage = [OnModelMessage ''u1''], onError = [OnModelError ''u1''],
              onClose = [OnModelClose ''u1''], onOpen = [OnModelOpen 0]\<rparr>),
     nextSocket = 2,
     history = [UpdateCallStatus ''CA123'' RecordConnected], timers = [], pending = []\<rparr>"
  by (simp add: call_started_def call_bound_eq run_defs prims)

lemma assistant_speaking_eq:
  "assistant_speaking = \<lparr>userSessions = [''u1'' \<mapsto> 0],
     heap = (\<lambda>_. new_session [])
       (0 := \<lparr>userId = ''u1'', twilioConn = Some 0, frontendConn = None,
          modelConn = Some 1, streamSid = Some ''S1'', saved_config = None,
          lastAssistantItem = Some ''item_1'', responseStartTimestamp = Some 100,
          latestMediaTimestamp = Some 350, openAIApiKey = Some ''key'',
          callType = Some Outbound, callSid = Some ''CA123'',
          outboundCallStatus = Some Connected\<rparr>),
     nextSession = 1,
     callSidToUserId = [''CA123'' \<mapsto> ''u1''],
     sockets = (\<lambda>_. new_socket CLOSED)
       (0 := \<lparr>readyState = OPEN, outbox = [MediaOut ''S1'' ''b'', Mark ''S1''],
              onMessage = [OnTwilioMessage (Some ''u1'') 0 ''key''],
              onError = [OnErrorClose, OnErrorClose],
              onClose = [OnAnonymousClose, OnTwilioClose 0], onOpen = []\<rparr>,
        1 := \<lparr>readyState = OPEN,
              outbox = [SessionUpdate default_config, InputAudioBufferAppend ''a'',
                        InputAudioBufferAppend ''c''],
              onMessage = [OnModelMessage ''u1''], onError = [OnModelError ''u1''],
              onClose = [OnModelClose ''u1''], onOpen = [OnModelOpen 0]\<rparr>),
     nextSocket = 2,
     history = [UpdateCallStatus ''CA123'' RecordConnected,
                AddConversationEvent ''CA123'' User_speech User ''Speech started'' NoMetadata],
     timers = [''u1''], pending = []\<rparr>"
  by (simp add: assistant_speaking_def call_started_eq run_defs prims)

subsection \<open>C1: what the barge-in action sends\<close>

text \<open>
  The action only reaches the model through \<open>jsonSend\<close>, which sends nothing unless
  the socket is open. In \<open>model_lost\<close> the assistant item, the response start (100) and
  the latest media time (350) are all recorded, the model socket has closed since the
  action was scheduled, and the action sends nothing on any socket.
\<close>

theorem truncation_silent_without_model_link:
  "userSessions model_lost ''u1'' = Some 0
   \<and> lastAssistantItem (heap model_lost 0) = Some ''item_1''
   \<and> responseStartTimestamp (heap model_lost 0) = Some 100
   \<and> latestMediaTimestamp (heap model_lost 0) = Some 350
   \<and> timers model_lost = [''u1'']
   \<and> sockets (step example_env TimerFires model_lost) = sockets model_lost"
  by (simp add: model_lost_def assistant_speaking_eq run_defs prims)

text \<open>
  C1, amended. When the barge-in action runs for a session whose assistant item is
  recorded (a non-empty identifier), whose response start \<open>T0\<close> is recorded and not
  zero, whose latest media time is \<open>T1\<close> and whose model socket is open, it appends to
  that socket exactly the truncate instruction for the item at offset \<open>T1 - T0\<close>, then
  the buffer-clear instruction, then the system notice, and afterwards the assistant
  item and the response start are both empty.
\<close>

theorem truncation_sends_when_model_open:
  assumes "userSessions s uid = Some r"
    and "lastAssistantItem (heap s r) = Some it" and "it \<noteq> []"
    and "responseStartTimestamp (heap s r) = Some T0" and "T0 \<noteq> 0"
    and "latestMediaTimestamp (heap s r) = Some T1"
    and "modelConn (heap s r) = Some w" and "readyState (sockets s w) = OPEN"
  shows "outbox (sockets (handleTruncation uid s) w) =
           outbox (sockets s w) @
             [ConversationItemTruncate it 0 (T1 - T0), InputAudioBufferClear,
              ConversationItemCreate (SystemMessage interrupted_notice)]
         \<and> lastAssistantItem (heap (handleTruncation uid s) r) = None
         \<and> responseStartTimestamp (heap (handleTruncation uid s) r) = None"
  using assms
  by (simp add: handleTruncation_def getUserSession_existing prims Let_def split: option.splits)

theorem truncation_sends_when_model_open_witness:
  "userSessions assistant_speaking ''u1'' = Some 0
   \<and> lastAssistantItem (heap assistant_speaking 0) = Some ''item_1''
   \<and> responseStartTimestamp (heap assistant_speaking 0) = Some 100
   \<and> latestMediaTimestamp (heap assistant_speaking 0) = Some 350
   \<and> modelConn (heap assistant_speaking 0) = Some 1
   \<and> readyState (sockets assistant_speaking 1) = OPEN
   \<and> outbox (sockets (handleTruncation ''u1'' assistant_speaking) 1) =
        [SessionUpdate default_config, InputAudioBufferAppend ''a'', InputAudioBufferAppend ''c'',
         ConversationItemTruncate ''item_1'' 0 250, InputAudioBufferClear,
         ConversationItemCreate (SystemMessage interrupted_notice)]
   \<and> lastAssistantItem (heap (handleTruncation ''u1'' assistant_speaking) 0) = None
   \<and> responseStartTimestamp (heap (handleTruncation ''u1'' assistant_speaking) 0) = None"
proof -
  have h: "userSessions assistant_speaking ''u1'' = Some 0"
    "lastAssistantItem (heap assistant_speaking 0) = Some ''item_1''"
    "''item_1'' \<noteq> []"
    "responseStartTimestamp (heap assistant_speaking 0) = Some 100"
    "(100::int) \<noteq> 0"
    "latestMediaTimestamp (heap assistant_speaking 0) = Some 350"
    "modelConn (heap assistant_speaking 0) = Some 1"
    "readyState (sockets assistant_speaking 1) = OPEN"
    by (simp_all add: assistant_speaking_eq)
  have o: "outbox (sockets assistant_speaking 1) =
      [SessionUpdate default_config, InputAudioBufferAppend ''a'', InputAudioBufferAppend ''c'']"
    by (simp add: assistant_speaking_eq)
  show ?thesis
    using truncation_sends_when_model_open [OF h] h o by simp
qed

text \<open>
  The guard on the response start is a truthiness test, so a response that started at
  media time 0 is never truncated.
\<close>

lemma truncation_skipped_at_zero:
  assumes "userSessions s uid = Some r"
    and "responseStartTimestamp (heap s r) = Some 0"
  shows "handleTruncation uid s = s"
  using assms
  by (simp add: handleTruncation_def getUserSession_existing split: option.splits)

subsection \<open>C2: tool calls\<close>

text \<open>
  A call of a tool that is not registered makes \<open>handleFunctionCall\<close> throw; the
  rejection is caught by the \<^verbatim>\<open>.catch\<close> callback, which records it in the call history
  and sends nothing. In \<open>unknown_tool_called\<close> the model socket is open, the call has
  settled, and the model got neither a function output nor a request to go on.
\<close>

theorem unknown_function_sends_nothing:
  "handleFunctionCall example_env ''nope'' ''x'' = Inl ''No handler found for function: nope''
   \<and> readyState (sockets call_started 1) = OPEN
   \<and> modelConn (heap call_started 0) = Some 1
   \<and> pending unknown_tool_called = []
   \<and> sockets unknown_tool_called = sockets call_started
   \<and> history unknown_tool_called = history call_started @
        [AddConversationEvent ''CA123'' Function_call System ''Function: nope''
           (FunctionArgs ''nope'' ''x''),
         AddConversationEvent ''CA123'' System_event System
           ''Function error: No handler found for function: nope''
           (FunctionResult ''nope'' ''No handler found for function: nope'')]"
  by (simp add: unknown_tool_called_def call_started_eq run_defs prims)

text \<open>
  C2, amended. For a tool call that settles while the session's model socket is open:
  if the function name is registered, the call always resolves to a result string (the
  structured error object for arguments that do not parse and for a handler that throws,
  the handler's result otherwise), and exactly one function-output
  \<^verbatim>\<open>conversation.item.create\<close> followed by exactly one \<^verbatim>\<open>response.create\<close> is appended to
  the model socket; if the function name is not registered, the call is rejected, the
  rejection is caught, and nothing is sent on any socket.
\<close>

theorem tool_call_closes_loop:
  assumes "userSessions s uid = Some r'"
    and "modelConn (heap s r') = Some w" and "readyState (sockets s w) = OPEN"
  shows "case find (\<lambda>f. fst f = name) (functionHandlers e) of
           None \<Rightarrow>
             handleFunctionCall e name arguments = Inl (''No handler found for function: '' @ name)
             \<and> sockets (settleFunctionCall e (FunctionCallItem name arguments call_id, uid, r) s)
                 = sockets s
         | Some fnDef \<Rightarrow>
             (\<exists>output.
                handleFunctionCall e name arguments = Inr output
                \<and> output =
                    (case JSON_parse e arguments of
                       None \<Rightarrow> error_object e ''Invalid JSON arguments for function call.''
                     | Some args \<Rightarrow>
                         (case snd fnDef args of
                            Inr result \<Rightarrow> result
                          | Inl err_message \<Rightarrow>
                              error_object e
                                (''Error running function '' @ name @ '': '' @ err_message)))
                \<and> outbox (sockets (settleFunctionCall e
                             (FunctionCallItem name arguments call_id, uid, r) s) w)
                    = outbox (sockets s w) @
                        [ConversationItemCreate
                           (FunctionCallOutput call_id (JSON_stringify e output)),
                         ResponseCreate])"
proof (cases "find (\<lambda>f. fst f = name) (functionHandlers e)")
  case None
  then show ?thesis
    by (simp add: settleFunctionCall_def handleFunctionCall_def functionCallCatch_def prims
        split: option.splits)
next
  case (Some fnDef)
  define out where "out =
    (case JSON_parse e arguments of
       None \<Rightarrow> error_object e ''Invalid JSON arguments for function call.''
     | Some args \<Rightarrow>
         (case snd fnDef args of
            Inr result \<Rightarrow> result
          | Inl err_message \<Rightarrow>
              error_object e (''Error running function '' @ name @ '': '' @ err_message)))"
  have res: "handleFunctionCall e name arguments = Inr out"
    using Some by (simp add: handleFunctionCall_def out_def split: option.splits sum.splits)
  have sent: "outbox (sockets (functionCallThen e name call_id uid out s) w)
      = outbox (sockets s w) @
          [ConversationItemCreate (FunctionCallOutput call_id (JSON_stringify e out)),
           ResponseCreate]"
    using assms
    by (simp add: functionCallThen_def getUserSession_existing prims Let_def
        split: option.splits)
  show ?thesis
    using Some res sent by (simp add: settleFunctionCall_def out_def)
qed

theorem tool_call_closes_loop_witness:
  "userSessions call_started ''u1'' = Some 0
   \<and> modelConn (heap call_started 0) = Some 1
   \<and> readyState (sockets call_started 1) = OPEN
   \<and> handleFunctionCall example_env ''get_weather'' ''boom'' =
        Inr (error_object example_env ''Error running function get_weather: service down'')
   \<and> outbox (sockets (settleFunctionCall example_env
                (FunctionCallItem ''get_weather'' ''boom'' (Some ''call_1''), ''u1'', 0)
                call_started) 1)
       = [SessionUpdate default_config,
          ConversationItemCreate (FunctionCallOutput (Some ''call_1'')
            (JSON_stringify example_env
               (error_object example_env ''Error running function get_weather: service down''))),
          ResponseCreate]"
proof -
  have h: "userSessions call_started ''u1'' = Some 0"
    "modelConn (heap call_started 0) = Some 1"
    "readyState (sockets call_started 1) = OPEN"
    by (simp_all add: call_started_eq)
  have f: "find (\<lambda>f. fst f = ''get_weather'') (functionHandlers example_env)
      = Some (''get_weather'', \<lambda>args. if args = ''boom'' then Inl ''service down'' else Inr ''sunny'')"
    by (simp add: example_env_def)
  have p: "JSON_parse example_env ''boom'' = Some ''boom''"
    by (simp add: example_env_def)
  have o: "outbox (sockets call_started 1) = [SessionUpdate default_config]"
    by (simp add: call_started_eq)
  show ?thesis
    using tool_call_closes_loop [OF h, where name = "''get_weather''" and e = example_env
        and arguments = "''boom''" and call_id = "Some ''call_1''" and r = 0] h o
    by (simp add: f p)
qed

subsection \<open>C3: the end of a call\<close>

text \<open>
  The \<^verbatim>\<open>close\<close> listener of an identified telephony socket ends call tracking once
  (when the session has a call identifier) and clears the stream identifier, the
  assistant item and both timestamps.
\<close>

lemma twilioClose_clears:
  "streamSid (heap (twilioClose r s) r) = None
   \<and> lastAssistantItem (heap (twilioClose r s) r) = None
   \<and> responseStartTimestamp (heap (twilioClose r s) r) = None
   \<and> latestMediaTimestamp (heap (twilioClose r s) r) = None"
  by (simp add: twilioClose_def Let_def prims split: option.splits)

lemma twilioClose_ends_tracking_once:
  assumes "callSid (heap s r) = Some c" and "c \<noteq> []"
  shows "history (twilioClose r s) = history s @ [EndCallTracking c]"
  using assms by (simp add: twilioClose_def Let_def prims split: option.splits)

text \<open>
  C3. The \<^verbatim>\<open>close\<close> case of the message switch does not do the same. After the signals
  \<^verbatim>\<open>start\<close> and \<^verbatim>\<open>close\<close> on the call \<open>CA123\<close>, the session still holds the stream
  identifier \<open>S1\<close> and the media timestamp 0, with one end-of-call notification
  emitted; the four fields are cleared only when the socket's own \<^verbatim>\<open>close\<close> event
  arrives (the handler has asked for the socket to close), and that listener emits the
  end-of-call notification a second time.
\<close>

theorem close_signal_keeps_stream_fields:
  "userSessions close_signalled ''u1'' = Some 0
   \<and> streamSid (heap close_signalled 0) = Some ''S1''
   \<and> latestMediaTimestamp (heap close_signalled 0) = Some 0
   \<and> history close_signalled =
        [UpdateCallStatus ''CA123'' RecordConnected, EndCallTracking ''CA123'']
   \<and> readyState (sockets close_signalled 0) = CLOSING
   \<and> streamSid (heap (step example_env (SocketClose 0) close_signalled) 0) = None
   \<and> latestMediaTimestamp (heap (step example_env (SocketClose 0) close_signalled) 0) = None
   \<and> history (step example_env (SocketClose 0) close_signalled) =
        [UpdateCallStatus ''CA123'' RecordConnected, EndCallTracking ''CA123'',
         EndCallTracking ''CA123'']"
  by (simp add: close_signalled_def call_bound_eq run_defs prims)

subsection \<open>C4: an outbound call connects\<close>

lemma associate_registers:
  "\<exists>r. userSessions (associateOutboundCall uid csid s) uid = Some r
     \<and> callType (heap (associateOutboundCall uid csid s) r) = Some Outbound
     \<and> callSidToUserId (associateOutboundCall uid csid s) csid = Some uid"
  by (simp add: associateOutboundCall_def getUserSession_def prims Let_def split: option.splits)

lemma bindCall_outbound:
  assumes "userSessions s uid = Some r" and "callType (heap s r) = Some Outbound"
  shows "userSessions (bindCall uid csid ws apiKey s) uid = Some r
     \<and> callType (heap (bindCall uid csid ws apiKey s) r) = Some Outbound
     \<and> outboundCallStatus (heap (bindCall uid csid ws apiKey s) r) = Some Connected"
  using assms
  by (simp add: bindCall_def getUserSession_existing prims Let_def split: option.splits)

lemma tryConnectModel_keeps:
  assumes "userSessions s uid = Some r"
  shows "userSessions (tryConnectModel uid s) uid = Some r
     \<and> callType (heap (tryConnectModel uid s) r) = callType (heap s r)
     \<and> outboundCallStatus (heap (tryConnectModel uid s) r) = outboundCallStatus (heap s r)
     \<and> streamSid (heap (tryConnectModel uid s) r) = streamSid (heap s r)"
  using assms
  by (simp add: tryConnectModel_def getUserSession_existing prims Let_def split: option.splits)

lemma start_outbound:
  assumes "userSessions s uid = Some r" and "callType (heap s r) = Some Outbound"
  shows "userSessions (twilioEvent (Start csid ssid caller) uid s) uid = Some r
     \<and> callType (heap (twilioEvent (Start csid ssid caller) uid s) r) = Some Outbound
     \<and> outboundCallStatus (heap (twilioEvent (Start csid ssid caller) uid s) r)
         = outboundCallStatus (heap s r)
     \<and> streamSid (heap (twilioEvent (Start csid ssid caller) uid s) r) = Some ssid"
  using assms
  by (simp add: twilioEvent_def getUserSession_existing tryConnectModel_keeps prims Let_def)

text \<open>
  Wherever a call identifier is registered for a user whose session is marked outbound,
  a \<^verbatim>\<open>start\<close> message carrying it on an anonymous socket binds the socket to that
  session and connects the call.
\<close>

lemma start_resolves_registered:
  assumes "uid \<noteq> []" and "getUserIdByCallSid csid s = Some uid"
    and "userSessions s uid = Some r" and "callType (heap s r) = Some Outbound"
  shows "userSessions (handleTwilioMessage (Some (Start csid ssid caller)) None ws apiKey s) uid
           = Some r
     \<and> callType (heap (handleTwilioMessage (Some (Start csid ssid caller)) None ws apiKey s) r)
           = Some Outbound
     \<and> outboundCallStatus
           (heap (handleTwilioMessage (Some (Start csid ssid caller)) None ws apiKey s) r)
           = Some Connected
     \<and> streamSid (heap (handleTwilioMessage (Some (Start csid ssid caller)) None ws apiKey s) r)
           = Some ssid"
proof -
  define s2 where "s2 = bindCall uid csid ws apiKey s"
  have b: "userSessions s2 uid = Some r" "callType (heap s2 r) = Some Outbound"
    "outboundCallStatus (heap s2 r) = Some Connected"
    unfolding s2_def using bindCall_outbound [OF assms(3,4)] by simp_all
  have h: "handleTwilioMessage (Some (Start csid ssid caller)) None ws apiKey s
             = twilioEvent (Start csid ssid caller) uid s2"
    using assms(1,2) by (simp add: handleTwilioMessage_def if_truthy_def s2_def)
  show ?thesis
    unfolding h using start_outbound [OF b(1) b(2), of csid ssid caller] b(3) by simp
qed

text \<open>
  C4. Once a call identifier is registered for a (non-empty) user identifier, it
  resolves to that user, and after a \<^verbatim>\<open>start\<close> message carrying it has been handled on
  an anonymous telephony socket, that user's session has call type outbound, outbound
  status connected and the stream identifier of the message. This holds from any state.
\<close>

theorem outbound_start_connects:
  assumes "uid \<noteq> []"
  shows "getUserIdByCallSid csid (associateOutboundCall uid csid s) = Some uid
     \<and> (\<exists>r. userSessions (handleTwilioMessage (Some (Start csid ssid caller)) None ws apiKey
                 (associateOutboundCall uid csid s)) uid = Some r
          \<and> callType (heap (handleTwilioMessage (Some (Start csid ssid caller)) None ws apiKey
                 (associateOutboundCall uid csid s)) r) = Some Outbound
          \<and> outboundCallStatus (heap (handleTwilioMessage (Some (Start csid ssid caller)) None ws
                 apiKey (associateOutboundCall uid csid s)) r) = Some Connected
          \<and> streamSid (heap (handleTwilioMessage (Some (Start csid ssid caller)) None ws apiKey
                 (associateOutboundCall uid csid s)) r) = Some ssid)"
proof -
  define s1 where "s1 = associateOutboundCall uid csid s"
  obtain r where r: "userSessions s1 uid = Some r" "callType (heap s1 r) = Some Outbound"
    and c: "getUserIdByCallSid csid s1 = Some uid"
    unfolding s1_def getUserIdByCallSid_def using associate_registers by blast
  show ?thesis
    unfolding s1_def [symmetric]
    using start_resolves_registered [OF assms c r, of ssid caller ws apiKey] c by blast
qed

theorem outbound_start_connects_witness:
  "''u1'' \<noteq> []
   \<and> getUserIdByCallSid ''CA123'' (associateOutboundCall ''u1'' ''CA123'' initial) = Some ''u1''
   \<and> (\<exists>r. userSessions (handleTwilioMessage (Some (Start ''CA123'' ''S1'' None)) None 0 ''key''
               (associateOutboundCall ''u1'' ''CA123'' initial)) ''u1'' = Some r
        \<and> callType (heap (handleTwilioMessage (Some (Start ''CA123'' ''S1'' None)) None 0 ''key''
               (associateOutboundCall ''u1'' ''CA123'' initial)) r) = Some Outbound
        \<and> outboundCallStatus (heap (handleTwilioMessage (Some (Start ''CA123'' ''S1'' None)) None
               0 ''key'' (associateOutboundCall ''u1'' ''CA123'' initial)) r) = Some Connected
        \<and> streamSid (heap (handleTwilioMessage (Some (Start ''CA123'' ''S1'' None)) None 0 ''key''
               (associateOutboundCall ''u1'' ''CA123'' initial)) r) = Some ''S1'')"
proof -
  have h: "''u1'' \<noteq> []" by simp
  show ?thesis
    using h outbound_start_connects [OF h, of "''CA123''" initial "''S1''" None 0 "''key''"]
    by blast
qed

text \<open>The scenario of the specification, from a fresh process.\<close>

lemma outbound_scenario:
  "userSessions call_bound ''u1'' = Some 0
   \<and> callType (heap call_bound 0) = Some Outbound
   \<and> outboundCallStatus (heap call_bound 0) = Some Connected
   \<and> streamSid (heap call_bound 0) = Some ''S1''"
  by (simp add: call_bound_eq)

subsection \<open>C5: a call nobody registered\<close>

text \<open>
  C5. A \<^verbatim>\<open>start\<close> message on an anonymous telephony socket whose call identifier has no
  registration changes nothing but that socket's ready state, which stops being open:
  the registry, every session object, the registrations, the call history and every
  other socket are as before.
\<close>

theorem unregistered_start_closes_only:
  assumes "getUserIdByCallSid csid s = None"
  shows "handleTwilioMessage (Some (Start csid ssid caller)) None ws apiKey s =
           s\<lparr>sockets := (sockets s)(ws := (sockets s ws)\<lparr>readyState :=
                (if readyState (sockets s ws) = CLOSED then CLOSED else CLOSING)\<rparr>)\<rparr>
         \<and> readyState (sockets (handleTwilioMessage (Some (Start csid ssid caller)) None ws
              apiKey s) ws) \<in> {CLOSING, CLOSED}
         \<and> userSessions (handleTwilioMessage (Some (Start csid ssid caller)) None ws apiKey s)
             = userSessions s
         \<and> heap (handleTwilioMessage (Some (Start csid ssid caller)) None ws apiKey s) = heap s
         \<and> history (handleTwilioMessage (Some (Start csid ssid caller)) None ws apiKey s)
             = history s"
  using assms
  by (simp add: handleTwilioMessage_def if_truthy_def ws_close_def update_socket_def)

theorem unregistered_start_closes_only_witness:
  "getUserIdByCallSid ''CA999'' anonymous_connected = None
   \<and> readyState (sockets anonymous_connected 0) = OPEN
   \<and> readyState (sockets (step example_env
        (SocketMessage 0 (Some (Start ''CA999'' ''S1'' None))) anonymous_connected) 0) = CLOSING
   \<and> userSessions (step example_env
        (SocketMessage 0 (Some (Start ''CA999'' ''S1'' None))) anonymous_connected) = Map.empty
   \<and> history (step example_env
        (SocketMessage 0 (Some (Start ''CA999'' ''S1'' None))) anonymous_connected) = []"
proof -
  have h: "getUserIdByCallSid ''CA999'' anonymous_connected = None"
    by (simp add: anonymous_connected_def run_defs prims)
  have l: "onMessage (sockets anonymous_connected 0) = [OnTwilioMessage None 0 ''key'']"
    "readyState (sockets anonymous_connected 0) = OPEN"
    "userSessions anonymous_connected = Map.empty" "history anonymous_connected = []"
    by (simp_all add: anonymous_connected_def run_defs prims)
  show ?thesis
    using unregistered_start_closes_only [OF h, of "''S1''" None 0 "''key''"] h l
    by (simp add: step_def run_message_listener_def)
qed

subsection \<open>C6: how long a session stays in the registry\<close>

text \<open>
  An observer connects with a good token and its socket closes again: the session of
  \<open>u1\<close> is still in the registry, with no link of any kind and no call registration.
\<close>

theorem session_outlives_links:
  "userSessions (step example_env (SocketClose 0) observer_connected) ''u1'' = Some 0
   \<and> twilioConn (heap (step example_env (SocketClose 0) observer_connected) 0) = None
   \<and> modelConn (heap (step example_env (SocketClose 0) observer_connected) 0) = None
   \<and> frontendConn (heap (step example_env (SocketClose 0) observer_connected) 0) = None
   \<and> callSidToUserId (step example_env (SocketClose 0) observer_connected) = Map.empty"
  by (simp add: observer_connected_def run_defs prims)

text \<open>No event but \<open>deleteUserSession\<close> for the same user removes a session.\<close>

lemma reg_step:
  assumes "userSessions s uid = Some r" and "ev \<noteq> DeleteUserSession uid"
  shows "userSessions (step e ev s) uid = Some r"
proof (cases ev)
  case (CallConnection k)
  then show ?thesis using assms(1)
    by (simp add: step_def accept_def handleCallConnection_def)
next
  case (FrontendConnection t)
  then show ?thesis using assms(1)
    by (simp add: step_def accept_def reg_handleFrontendConnection)
next
  case (AssociateOutboundCall u c)
  then show ?thesis using assms(1) by (simp add: step_def reg_associateOutboundCall)
next
  case (AssociateOutboundCallWithPhoneNumber u c p)
  then show ?thesis using assms(1)
    by (simp add: step_def associateOutboundCallWithPhoneNumber_def reg_associateOutboundCall)
next
  case (DeleteUserSession u)
  then show ?thesis using assms by (simp add: step_def reg_deleteUserSession)
next
  case (SocketMessage w d)
  have "userSessions (fold (run_message_listener d) (onMessage (sockets s w)) s) uid = Some r"
    by (rule reg_fold [OF _ assms(1)])
      (simp add: run_message_listener_def reg_handleTwilioMessage reg_handleFrontendMessage
        reg_handleModelMessage split: message_listener.splits)
  then show ?thesis using SocketMessage by (simp add: step_def)
next
  case (SocketClose w)
  have "userSessions (fold run_close_listener (onClose (sockets s w))
          (update_socket w (\<lambda>x. x\<lparr>readyState := CLOSED\<rparr>) s)) uid = Some r"
    by (rule reg_fold)
      (simp_all add: assms(1) run_close_listener_def reg_closeModel split: close_listener.splits)
  then show ?thesis using SocketClose by (simp add: step_def)
next
  case (SocketError w)
  have "userSessions (fold (run_error_listener w) (onError (sockets s w)) s) uid = Some r"
    by (rule reg_fold [OF _ assms(1)])
      (simp add: run_error_listener_def reg_closeModel split: error_listener.splits)
  then show ?thesis using SocketError by (simp add: step_def)
next
  case (SocketOpen w)
  have "userSessions (fold run_open_listener (onOpen (sockets s w))
          (update_socket w (\<lambda>x. x\<lparr>readyState := OPEN\<rparr>) s)) uid = Some r"
    by (rule reg_fold)
      (simp_all add: assms(1) run_open_listener_def split: open_listener.splits)
  then show ?thesis using SocketOpen assms(1) by (simp add: step_def)
next
  case TimerFires
  then show ?thesis using assms(1)
    by (simp add: step_def reg_handleTruncation split: list.splits)
next
  case (PromiseSettles n)
  then show ?thesis using assms(1) by (simp add: step_def reg_settleFunctionCall)
qed

text \<open>
  C6, amended. A session that is in the registry stays there, bound to the same
  session object, across every sequence of events that has no \<open>deleteUserSession\<close>
  for its own user identifier: no link closing and no message removes it, whether or not
  a link is live or a call registration is outstanding.
\<close>

theorem session_persists:
  assumes "userSessions s uid = Some r" and "DeleteUserSession uid \<notin> set evs"
  shows "userSessions (run e evs s) uid = Some r"
  using assms
proof (induction evs arbitrary: s)
  case Nil
  then show ?case by simp
next
  case (Cons ev evs)
  from Cons.prems have "ev \<noteq> DeleteUserSession uid" by auto
  with Cons.prems(1) have "userSessions (step e ev s) uid = Some r"
    by (rule reg_step)
  moreover from Cons.prems have "DeleteUserSession uid \<notin> set evs" by simp
  ultimately show ?case using Cons.IH by simp
qed

theorem session_persists_witness:
  "userSessions observer_connected ''u1'' = Some 0
   \<and> frontendConn (heap observer_connected 0) = Some 0
   \<and> DeleteUserSession ''u1'' \<notin> set [SocketClose 0, TimerFires]
   \<and> userSessions (run example_env [SocketClose 0, TimerFires] observer_connected) ''u1''
       = Some 0"
proof -
  have h: "userSessions observer_connected ''u1'' = Some 0"
    by (simp add: observer_connected_def run_defs prims)
  have f: "frontendConn (heap observer_connected 0) = Some 0"
    by (simp add: observer_connected_def run_defs prims)
  have n: "DeleteUserSession ''u1'' \<notin> set [SocketClose 0, TimerFires]" by simp
  show ?thesis
    using session_persists [OF h n, of example_env] h f n by blast
qed

subsection \<open>C7: the media clock\<close>

text \<open>
  A media frame with timestamp 40 arrives after one with timestamp 100: the latest
  media timestamp goes from 100 down to 40.
\<close>

theorem media_timestamp_can_decrease:
  "latestMediaTimestamp (heap (step example_env (SocketMessage 0 (Some (Media 100 ''a'')))
      call_started) 0) = Some 100
   \<and> latestMediaTimestamp (heap (run example_env
        [SocketMessage 0 (Some (Media 100 ''a'')), SocketMessage 0 (Some (Media 40 ''b''))]
        call_started) 0) = Some 40"
  by (simp add: call_started_eq run_defs prims)

text \<open>
  C7, amended. Handling a telephony message for an identified session sets the latest
  media timestamp to 0 on \<^verbatim>\<open>start\<close>, sets it to the timestamp the frame carries on
  \<^verbatim>\<open>media\<close>, whatever was stored before, and leaves it as it is on every other message;
  so across media frames it is non-decreasing exactly when the frames' timestamps are.
\<close>

theorem telephony_sets_timestamp:
  assumes "uid \<noteq> []" and "userSessions s uid = Some r"
  shows "latestMediaTimestamp
           (heap (handleTwilioMessage (Some msg) (Some uid) ws apiKey s) r)
         = (case msg of
              Start csid ssid caller \<Rightarrow> Some 0
            | Media ts payload \<Rightarrow> Some ts
            | _ \<Rightarrow> latestMediaTimestamp (heap s r))"
proof -
  have h: "handleTwilioMessage (Some msg) (Some uid) ws apiKey s = twilioEvent msg uid s"
    using assms(1) by (simp add: handleTwilioMessage_def if_truthy_def)
  have c: "latestMediaTimestamp (heap (tryConnectModel uid s') r)
             = latestMediaTimestamp (heap s' r)" if "userSessions s' uid = Some r" for s'
    using that
    by (simp add: tryConnectModel_def getUserSession_existing prims Let_def split: option.splits)
  show ?thesis
    unfolding h using assms(2)
    by (cases msg) (simp_all add: twilioEvent_def getUserSession_existing c update_session_def Let_def)
qed

theorem telephony_sets_timestamp_witness:
  "''u1'' \<noteq> [] \<and> userSessions call_started ''u1'' = Some 0
   \<and> latestMediaTimestamp (heap call_started 0) = Some 0
   \<and> latestMediaTimestamp
        (heap (handleTwilioMessage (Some (Media 100 ''a'')) (Some ''u1'') 0 ''key'' call_started) 0)
      = Some 100"
proof -
  have h: "''u1'' \<noteq> []" "userSessions call_started ''u1'' = Some 0"
    by (simp_all add: call_started_eq)
  have l: "latestMediaTimestamp (heap call_started 0) = Some 0"
    by (simp add: call_started_eq)
  show ?thesis
    using telephony_sets_timestamp [OF h, of "Media 100 ''a''" 0 "''key''"] h l by simp
qed

subsection \<open>C8: resolving a call identifier\<close>

text \<open>
  C8. A registered call identifier resolves to the user it was registered for;
  registering it again for another user makes it resolve to that user; and handling a
  telephony message, the \<^verbatim>\<open>start\<close> message that resolves the identifier included, leaves
  every registration in place, so that the identifier resolves to the same user again.
\<close>

theorem resolve_keeps_last_registration:
  "getUserIdByCallSid csid (associateOutboundCall uid csid s) = Some uid
   \<and> getUserIdByCallSid csid
        (associateOutboundCall uid2 csid (associateOutboundCall uid1 csid s)) = Some uid2
   \<and> getUserIdByCallSid c (handleTwilioMessage data u ws apiKey s) = getUserIdByCallSid c s"
  by (simp add: getUserIdByCallSid_def calls_handleTwilioMessage associateOutboundCall_def
      split_def Let_def update_session_def)

subsection \<open>C9: nothing to truncate\<close>

text \<open>
  C9. When the session has no assistant item recorded, the barge-in action leaves the
  whole state as it is: nothing is sent on any socket and no field of any session
  changes.
\<close>

theorem truncation_noop_without_item:
  assumes "userSessions s uid = Some r" and "\<not> truthy (lastAssistantItem (heap s r))"
  shows "handleTruncation uid s = s"
  using assms
  by (auto simp: handleTruncation_def getUserSession_existing truthy_def if_truthy_def
      split: option.splits if_splits)

theorem truncation_noop_without_item_witness:
  "userSessions call_started ''u1'' = Some 0
   \<and> \<not> truthy (lastAssistantItem (heap call_started 0))
   \<and> handleTruncation ''u1'' call_started = call_started"
proof -
  have h: "userSessions call_started ''u1'' = Some 0"
    "\<not> truthy (lastAssistantItem (heap call_started 0))"
    by (simp_all add: call_started_eq truthy_def if_truthy_def)
  show ?thesis
    using truncation_noop_without_item [OF h] h by simp
qed

subsection \<open>C10: an observer with a bad token\<close>

text \<open>
  C10. When no user identifier comes out of the token, \<open>handleFrontendConnection\<close>
  changes nothing but the ready state of the connecting socket, which stops being open:
  the registry and every session object are as before, and the socket has the listeners
  it had.
\<close>

theorem bad_token_closes_only:
  assumes "\<not> truthy (extractUserIdFromToken e token)"
  shows "handleFrontendConnection e ws token s =
           s\<lparr>sockets := (sockets s)(ws := (sockets s ws)\<lparr>readyState :=
                (if readyState (sockets s ws) = CLOSED then CLOSED else CLOSING)\<rparr>)\<rparr>
         \<and> readyState (sockets (handleFrontendConnection e ws token s) ws) \<in> {CLOSING, CLOSED}
         \<and> userSessions (handleFrontendConnection e ws token s) = userSessions s
         \<and> heap (handleFrontendConnection e ws token s) = heap s
         \<and> onMessage (sockets (handleFrontendConnection e ws token s) ws)
             = onMessage (sockets s ws)
         \<and> onClose (sockets (handleFrontendConnection e ws token s) ws)
             = onClose (sockets s ws)"
  using assms
  by (auto simp: handleFrontendConnection_def if_truthy_def truthy_def ws_close_def
      update_socket_def split: option.splits if_splits)

theorem bad_token_closes_only_witness:
  "jwt_verify example_env ''forged'' ''secret'' = None
   \<and> \<not> truthy (extractUserIdFromToken example_env ''forged'')
   \<and> readyState (sockets (step example_env (FrontendConnection ''forged'') initial) 0) = CLOSING
   \<and> userSessions (step example_env (FrontendConnection ''forged'') initial) = Map.empty
   \<and> onMessage (sockets (step example_env (FrontendConnection ''forged'') initial) 0) = []"
proof -
  have h: "\<not> truthy (extractUserIdFromToken example_env ''forged'')"
    by (simp add: extractUserIdFromToken_def example_env_def truthy_def if_truthy_def)
  have v: "jwt_verify example_env ''forged'' ''secret'' = None"
    by (simp add: example_env_def)
  show ?thesis
    using bad_token_closes_only [OF h, of 0
        "initial\<lparr>sockets := (sockets initial)(0 := new_socket OPEN), nextSocket := Suc 0\<rparr>"] h v
    by (simp add: step_def accept_def initial_def new_socket_def)
qed

end
